theory Spec2Isabelle
  imports Complex_Main
begin

section \<open>Numbers\<close>

text \<open>
  Every number the script computes is a NumPy \<^verbatim>\<open>float64\<close>, alone or as the element of an
  array, a Series or a DataFrame. A \<^verbatim>\<open>float64\<close> is modelled as an exact real number or one of
  the three special values \<^verbatim>\<open>inf\<close>, \<^verbatim>\<open>-inf\<close> and \<^verbatim>\<open>nan\<close>. The special values are produced and
  propagated as IEEE 754 and NumPy do (NumPy warns and continues where Python's own
  \<^verbatim>\<open>float\<close> would raise \<^verbatim>\<open>ZeroDivisionError\<close>). What the model leaves out: rounding to 53
  bits, overflow and underflow of finite results, and the sign of zero (\<^verbatim>\<open>-0.0\<close> is
  identified with \<^verbatim>\<open>0.0\<close>, so a nonzero number divided by zero is the infinity with the sign
  of the numerator). The arithmetic of the model is therefore exact: an equality of
  numbers proved below is an equality of exact arithmetic, which the \<^verbatim>\<open>float64\<close> results
  of the script match up to rounding error where nothing cancels, overflows or
  underflows, and which says nothing of the last bits of a \<^verbatim>\<open>float64\<close> result, or of the
  side to which a value within rounding error of a tie is rounded.
\<close>

datatype npfloat = Fin real | PInf | NInf | NaN

fun np_neg :: "npfloat \<Rightarrow> npfloat" where
  "np_neg (Fin a) = Fin (- a)"
| "np_neg PInf = NInf"
| "np_neg NInf = PInf"
| "np_neg NaN = NaN"

fun np_add :: "npfloat \<Rightarrow> npfloat \<Rightarrow> npfloat" where
  "np_add (Fin a) (Fin b) = Fin (a + b)"
| "np_add NaN _ = NaN"
| "np_add _ NaN = NaN"
| "np_add PInf NInf = NaN"
| "np_add NInf PInf = NaN"
| "np_add PInf _ = PInf"
| "np_add _ PInf = PInf"
| "np_add NInf _ = NInf"
| "np_add _ NInf = NInf"

definition np_sub :: "npfloat \<Rightarrow> npfloat \<Rightarrow> npfloat" where
  "np_sub a b = np_add a (np_neg b)"

fun np_mul :: "npfloat \<Rightarrow> npfloat \<Rightarrow> npfloat" where
  "np_mul (Fin a) (Fin b) = Fin (a * b)"
| "np_mul NaN _ = NaN"
| "np_mul _ NaN = NaN"
| "np_mul PInf (Fin b) = (if b = 0 then NaN else if 0 < b then PInf else NInf)"
| "np_mul NInf (Fin b) = (if b = 0 then NaN else if 0 < b then NInf else PInf)"
| "np_mul (Fin a) PInf = (if a = 0 then NaN else if 0 < a then PInf else NInf)"
| "np_mul (Fin a) NInf = (if a = 0 then NaN else if 0 < a then NInf else PInf)"
| "np_mul PInf PInf = PInf"
| "np_mul PInf NInf = NInf"
| "np_mul NInf PInf = NInf"
| "np_mul NInf NInf = PInf"

fun np_div :: "npfloat \<Rightarrow> npfloat \<Rightarrow> npfloat" where
  "np_div (Fin a) (Fin b) =
     (if b \<noteq> 0 then Fin (a / b)
      else if a = 0 then NaN else if 0 < a then PInf else NInf)"
| "np_div NaN _ = NaN"
| "np_div _ NaN = NaN"
| "np_div (Fin a) PInf = Fin 0"
| "np_div (Fin a) NInf = Fin 0"
| "np_div PInf (Fin b) = (if 0 \<le> b then PInf else NInf)"
| "np_div NInf (Fin b) = (if 0 \<le> b then NInf else PInf)"
| "np_div PInf PInf = NaN"
| "np_div PInf NInf = NaN"
| "np_div NInf PInf = NaN"
| "np_div NInf NInf = NaN"

text \<open>\<^verbatim>\<open>np.log\<close>: minus infinity at zero, \<^verbatim>\<open>nan\<close> below zero.\<close>

fun np_log :: "npfloat \<Rightarrow> npfloat" where
  "np_log (Fin a) = (if 0 < a then Fin (ln a) else if a = 0 then NInf else NaN)"
| "np_log PInf = PInf"
| "np_log NInf = NaN"
| "np_log NaN = NaN"

fun np_sqrt :: "npfloat \<Rightarrow> npfloat" where
  "np_sqrt (Fin a) = (if 0 \<le> a then Fin (sqrt a) else NaN)"
| "np_sqrt PInf = PInf"
| "np_sqrt NInf = NaN"
| "np_sqrt NaN = NaN"

text \<open>
  \<^verbatim>\<open>np.round(x, 0)\<close> rounds to the nearest whole number and a tie to the even neighbour;
  the result is still a \<^verbatim>\<open>float64\<close>, and the special values pass through.
\<close>

definition round_half_even :: "real \<Rightarrow> int" where
  "round_half_even x =
     (let f = \<lfloor>x\<rfloor>; d = x - of_int f
      in if d < 1 / 2 then f
         else if 1 / 2 < d then f + 1
         else if even f then f else f + 1)"

fun np_round :: "npfloat \<Rightarrow> npfloat" where
  "np_round (Fin a) = Fin (of_int (round_half_even a))"
| "np_round PInf = PInf"
| "np_round NInf = NInf"
| "np_round NaN = NaN"

text \<open>Comparisons: every comparison with \<^verbatim>\<open>nan\<close> is false, also \<^verbatim>\<open>nan == nan\<close>.\<close>

definition np_eq :: "npfloat \<Rightarrow> npfloat \<Rightarrow> bool" where
  "np_eq a b \<longleftrightarrow> a \<noteq> NaN \<and> b \<noteq> NaN \<and> a = b"

fun np_lt :: "npfloat \<Rightarrow> npfloat \<Rightarrow> bool" where
  "np_lt (Fin a) (Fin b) \<longleftrightarrow> a < b"
| "np_lt NInf (Fin b) \<longleftrightarrow> True"
| "np_lt NInf PInf \<longleftrightarrow> True"
| "np_lt (Fin a) PInf \<longleftrightarrow> True"
| "np_lt _ _ \<longleftrightarrow> False"

definition np_gt :: "npfloat \<Rightarrow> npfloat \<Rightarrow> bool" where
  "np_gt a b \<longleftrightarrow> np_lt b a"

text \<open>\<^verbatim>\<open>np.maximum\<close> and \<^verbatim>\<open>np.minimum\<close> propagate \<^verbatim>\<open>nan\<close>; so do the reductions built on them.\<close>

definition np_max2 :: "npfloat \<Rightarrow> npfloat \<Rightarrow> npfloat" where
  "np_max2 a b = (if a = NaN \<or> b = NaN then NaN else if np_lt a b then b else a)"

definition np_min2 :: "npfloat \<Rightarrow> npfloat \<Rightarrow> npfloat" where
  "np_min2 a b = (if a = NaN \<or> b = NaN then NaN else if np_lt b a then b else a)"

text \<open>\<^verbatim>\<open>.sum()\<close>, \<^verbatim>\<open>np.dot\<close> of two vectors and \<^verbatim>\<open>np.mean\<close>; the sum of no element is 0.\<close>

definition np_sum :: "npfloat list \<Rightarrow> npfloat" where
  "np_sum xs = fold (\<lambda>x acc. np_add acc x) xs (Fin 0)"

definition np_dot :: "npfloat list \<Rightarrow> npfloat list \<Rightarrow> npfloat" where
  "np_dot xs ys = np_sum (map2 np_mul xs ys)"

definition np_mean :: "npfloat list \<Rightarrow> npfloat" where
  "np_mean xs = np_div (np_sum xs) (Fin (real (length xs)))"

section \<open>Tables\<close>

text \<open>
  A pandas DataFrame of prices or returns: the column labels (tickers) and the rows in
  date order. A row gives the cell of every column; only the cells of the listed columns
  belong to the table. A Series taken from one row has the columns as its index.
\<close>

type_synonym ticker = string

record frame =
  columns :: "ticker list"
  rows :: "(ticker \<Rightarrow> npfloat) list"

record series =
  index :: "ticker list"
  vals :: "ticker \<Rightarrow> npfloat"

text \<open>\<^verbatim>\<open>data.shift(1)\<close>: every row moves down by one, the first row is all \<^verbatim>\<open>nan\<close>, the last
  row falls off.\<close>

definition shift1 :: "frame \<Rightarrow> frame" where
  "shift1 f = f\<lparr>rows := (if rows f = [] then [] else (\<lambda>_. NaN) # butlast (rows f))\<rparr>"

text \<open>\<^verbatim>\<open>a / b\<close> of two tables with the same labels, and \<^verbatim>\<open>np.log\<close> of a table: cell by cell.\<close>

definition frame_div :: "frame \<Rightarrow> frame \<Rightarrow> frame" where
  "frame_div f g = f\<lparr>rows := map2 (\<lambda>r s. (\<lambda>t. np_div (r t) (s t))) (rows f) (rows g)\<rparr>"

definition frame_log :: "frame \<Rightarrow> frame" where
  "frame_log f = f\<lparr>rows := map (\<lambda>r. (\<lambda>t. np_log (r t))) (rows f)\<rparr>"

text \<open>\<^verbatim>\<open>.dropna()\<close>: a row is kept when none of its cells is \<^verbatim>\<open>nan\<close> (infinities stay).\<close>

definition dropna :: "frame \<Rightarrow> frame" where
  "dropna f = f\<lparr>rows := filter (\<lambda>r. list_all (\<lambda>t. r t \<noteq> NaN) (columns f)) (rows f)\<rparr>"

section \<open>Returns\<close>

text \<open>\<^verbatim>\<open>calculate_returns\<close>: \<^verbatim>\<open>np.log(data / data.shift(1)).dropna()\<close>. Nothing in it raises.\<close>

definition calculate_returns :: "frame \<Rightarrow> frame" where
  "calculate_returns data = dropna (frame_log (frame_div data (shift1 data)))"

section \<open>Errors\<close>

text \<open>
  The exceptions that can leave the script. \<^verbatim>\<open>ValueError\<close> is raised in four places, told
  apart by their messages: by the script itself when a downloaded table has neither an
  \<^verbatim>\<open>Adj Close\<close> nor a \<^verbatim>\<open>Close\<close> field, and inside \<^verbatim>\<open>scipy.stats.linregress\<close> for empty input,
  for an \<^verbatim>\<open>x\<close> whose values are all identical, and for inputs of lengths that do not go
  together. \<^verbatim>\<open>KeyError\<close> is a missing column label, \<^verbatim>\<open>IndexError\<close> is \<^verbatim>\<open>.iloc[-1]\<close> on a table
  without rows.
\<close>

datatype value_error = NoPriceColumns | InputsEmpty | IdenticalX | ShapeMismatch

datatype error = ValueError value_error | KeyError ticker | IndexError

text \<open>The names the specification gives to the failures that exist in the code.\<close>

definition DataUnavailable :: error where
  "DataUnavailable = ValueError NoPriceColumns"

definition DegenerateRegression :: "error \<Rightarrow> bool" where
  "DegenerateRegression e \<longleftrightarrow> e = ValueError InputsEmpty \<or> e = ValueError IdenticalX"

section \<open>Data retrieval\<close>

text \<open>
  \<^verbatim>\<open>yf.download\<close> is the market-data source, outside the script: a function from the
  requested tickers and the optional date range to the downloaded table. Of the table only
  its two price fields matter, each present or absent.
\<close>

record payload =
  adj_close :: "frame option"
  close :: "frame option"

type_synonym downloader = "ticker list \<Rightarrow> (string \<times> string) option \<Rightarrow> payload"

definition get_historical_data ::
  "downloader \<Rightarrow> ticker list \<Rightarrow> string \<Rightarrow> string \<Rightarrow> error + frame" where
  "get_historical_data yf tickers start_date end_date =
     (let data = yf (tickers @ [''SPY'']) (Some (start_date, end_date))
      in case adj_close data of
           Some f \<Rightarrow> Inr (dropna f)
         | None \<Rightarrow>
             (case close data of
                Some f \<Rightarrow> Inr (dropna f)
              | None \<Rightarrow> Inl (ValueError NoPriceColumns)))"

text \<open>\<^verbatim>\<open>.iloc[-1]\<close>, the last row as a Series; \<^verbatim>\<open>s[t]\<close> on a Series; \<^verbatim>\<open>df[t]\<close> on a table.\<close>

definition iloc_last :: "frame \<Rightarrow> error + series" where
  "iloc_last f =
     (if rows f = [] then Inl IndexError
      else Inr \<lparr>index = columns f, vals = last (rows f)\<rparr>)"

definition series_get :: "series \<Rightarrow> ticker \<Rightarrow> error + npfloat" where
  "series_get s t = (if t \<in> set (index s) then Inr (vals s t) else Inl (KeyError t))"

definition frame_col :: "frame \<Rightarrow> ticker \<Rightarrow> error + npfloat list" where
  "frame_col f t =
     (if t \<in> set (columns f) then Inr (map (\<lambda>r. r t) (rows f)) else Inl (KeyError t))"

section \<open>Beta\<close>

text \<open>
  \<^verbatim>\<open>scipy.stats.linregress(x, y)\<close> belongs to SciPy, and the script pins no release. Two
  releases are modelled, as far as the slope and the correlation coefficient go. The body
  of the function is the same in both but for one line:
  \<^verbatim>\<open>
    if x.size == 0 or y.size == 0: raise ValueError("Inputs must not be empty.")
    if np.amax(x) == np.amin(x) and len(x) > 1: raise ValueError("Cannot calculate ...")
    n = len(x)
    ssxm, ssxym, _, ssym = np.cov(x, y, bias=1).flat
    if ssxm == 0.0 or ssym == 0.0:
        r = 0.0                              # SciPy 1.15
        r = nan if ssxym == 0 else 0.0       # SciPy 1.17
    else:
        r = ssxym / np.sqrt(ssxm * ssym)
        if r > 1.0: r = 1.0
        elif r < -1.0: r = -1.0
    slope = ssxym / ssxm
  \<close>
  \<^verbatim>\<open>np.cov\<close> with \<^verbatim>\<open>bias=1\<close> subtracts the mean from each input, sums the products and
  multiplies by \<^verbatim>\<open>1 / n\<close>. The intercept, the p-value and the standard errors are computed
  after that without raising, and \<^verbatim>\<open>calculate_beta\<close> discards them.
\<close>

datatype scipy_release = Scipy_1_15 | Scipy_1_17

definition np_cov :: "npfloat list \<Rightarrow> npfloat list \<Rightarrow> npfloat" where
  "np_cov x y =
     (let dx = map (\<lambda>v. np_sub v (np_mean x)) x;
          dy = map (\<lambda>v. np_sub v (np_mean y)) y
      in np_mul (np_dot dx dy) (np_div (Fin 1) (Fin (real (length x)))))"

definition linregress_body ::
  "scipy_release \<Rightarrow> npfloat list \<Rightarrow> npfloat list \<Rightarrow> error + npfloat \<times> npfloat" where
  "linregress_body scipy x y =
     (case x of
        [] \<Rightarrow> Inl (ValueError InputsEmpty)
      | x0 # xs \<Rightarrow>
          if y = [] then Inl (ValueError InputsEmpty)
          else if np_eq (fold np_max2 xs x0) (fold np_min2 xs x0) \<and> 1 < length x
            then Inl (ValueError IdenticalX)
          else if length x \<noteq> length y then Inl (ValueError ShapeMismatch)
          else
            (let ssxm = np_cov x x; ssxym = np_cov x y; ssym = np_cov y y;
                 r = (if np_eq ssxm (Fin 0) \<or> np_eq ssym (Fin 0)
                      then (case scipy of
                              Scipy_1_15 \<Rightarrow> Fin 0
                            | Scipy_1_17 \<Rightarrow> if np_eq ssxym (Fin 0) then NaN else Fin 0)
                      else (let r0 = np_div ssxym (np_sqrt (np_mul ssxm ssym))
                            in if np_gt r0 (Fin 1) then Fin 1
                               else if np_lt r0 (Fin (- 1)) then Fin (- 1)
                               else r0));
                 slope = np_div ssxym ssxm
             in Inr (slope, r)))"

text \<open>
  In SciPy 1.17 the function is wrapped: the two inputs are paired samples, broadcast to
  a common length (a sample of one observation is repeated; other unequal lengths are a
  \<^verbatim>\<open>ValueError\<close>); if a sample then contains \<^verbatim>\<open>nan\<close>, or has fewer than 2 observations
  (with a \<^verbatim>\<open>SmallSampleWarning\<close>), every field of the result is \<^verbatim>\<open>nan\<close> and the body is not
  run. In SciPy 1.15 the body is all there is.
\<close>

definition broadcast_pair ::
  "npfloat list \<Rightarrow> npfloat list \<Rightarrow> error + npfloat list \<times> npfloat list" where
  "broadcast_pair x y =
     (if length x = length y then Inr (x, y)
      else case (x, y) of
             ([x0], _) \<Rightarrow> Inr (replicate (length y) x0, y)
           | (_, [y0]) \<Rightarrow> Inr (x, replicate (length x) y0)
           | _ \<Rightarrow> Inl (ValueError ShapeMismatch))"

definition linregress ::
  "scipy_release \<Rightarrow> npfloat list \<Rightarrow> npfloat list \<Rightarrow> error + npfloat \<times> npfloat" where
  "linregress scipy x y =
     (case scipy of
        Scipy_1_15 \<Rightarrow> linregress_body scipy x y
      | Scipy_1_17 \<Rightarrow>
          (case broadcast_pair x y of
             Inl e \<Rightarrow> Inl e
           | Inr (xb, yb) \<Rightarrow>
               if NaN \<in> set xb \<or> NaN \<in> set yb \<or> length xb \<le> 1 then Inr (NaN, NaN)
               else linregress_body scipy xb yb))"

text \<open>\<^verbatim>\<open>calculate_beta\<close>: the benchmark is the regressor; returns the slope and \<^verbatim>\<open>r_value**2\<close>.\<close>

definition calculate_beta ::
  "scipy_release \<Rightarrow> npfloat list \<Rightarrow> npfloat list \<Rightarrow> error + npfloat \<times> npfloat" where
  "calculate_beta scipy asset_returns benchmark_returns =
     (case linregress scipy benchmark_returns asset_returns of
        Inl e \<Rightarrow> Inl e
      | Inr (slope, r_value) \<Rightarrow> Inr (slope, np_mul r_value r_value))"

section \<open>Rebalancing\<close>

text \<open>
  The portfolio is a Python dict from ticker to shares owned: its items in insertion
  order (a list of pairs stands for a dict when its tickers are distinct). The share
  counts, the total portfolio value and the target beta are ordinary finite Python
  numbers. The result is the DataFrame the function builds, column by column.
\<close>

type_synonym portfolio = "(ticker \<times> real) list"

record results =
  Ticker :: "ticker list"
  Current_Shares :: "real list"
  Current_Price :: "npfloat list"
  Beta :: "npfloat list"
  Current_Weight :: "npfloat list"
  Adjusted_Weight :: "npfloat list"
  New_Shares :: "npfloat list"

text \<open>The current prices: the last row of the price field of an undated download.\<close>

definition current_prices_of :: "downloader \<Rightarrow> portfolio \<Rightarrow> error + series" where
  "current_prices_of yf portfolio =
     (let data = yf (map fst portfolio) None
      in case adj_close data of
           Some f \<Rightarrow> iloc_last f
         | None \<Rightarrow>
             (case close data of
                Some f \<Rightarrow> iloc_last f
              | None \<Rightarrow> Inl (ValueError NoPriceColumns)))"

text \<open>The values of the dict \<^verbatim>\<open>positions\<close>: shares times current price, ticker by ticker.\<close>

fun positions_of :: "series \<Rightarrow> portfolio \<Rightarrow> error + npfloat list" where
  "positions_of current_prices [] = Inr []"
| "positions_of current_prices ((ticker, shares) # rest) =
     (case series_get current_prices ticker of
        Inl e \<Rightarrow> Inl e
      | Inr price \<Rightarrow>
          (case positions_of current_prices rest of
             Inl e \<Rightarrow> Inl e
           | Inr ps \<Rightarrow> Inr (np_mul (Fin shares) price # ps)))"

text \<open>The loop that fills the dict \<^verbatim>\<open>betas\<close>; its values in order.\<close>

fun betas_of ::
  "scipy_release \<Rightarrow> frame \<Rightarrow> npfloat list \<Rightarrow> portfolio \<Rightarrow> error + npfloat list" where
  "betas_of scipy returns spy_returns [] = Inr []"
| "betas_of scipy returns spy_returns ((ticker, shares) # rest) =
     (case frame_col returns ticker of
        Inl e \<Rightarrow> Inl e
      | Inr asset_returns \<Rightarrow>
          (case calculate_beta scipy asset_returns spy_returns of
             Inl e \<Rightarrow> Inl e
           | Inr (beta, r_sq) \<Rightarrow>
               (case betas_of scipy returns spy_returns rest of
                  Inl e \<Rightarrow> Inl e
                | Inr bs \<Rightarrow> Inr (beta # bs))))"

text \<open>The first half of \<^verbatim>\<open>portfolio_beta_weighting\<close>, up to the betas: everything that
  can raise.\<close>

definition prices_and_betas ::
  "scipy_release \<Rightarrow> downloader \<Rightarrow> portfolio \<Rightarrow>
     error + series \<times> npfloat list \<times> npfloat list" where
  "prices_and_betas scipy yf portfolio =
     (case current_prices_of yf portfolio of
        Inl e \<Rightarrow> Inl e
      | Inr current_prices \<Rightarrow>
     (case positions_of current_prices portfolio of
        Inl e \<Rightarrow> Inl e
      | Inr positions \<Rightarrow>
     (case get_historical_data yf (map fst portfolio) ''2020-01-01'' ''2023-01-01'' of
        Inl e \<Rightarrow> Inl e
      | Inr data \<Rightarrow>
     (let returns = calculate_returns data
      in case frame_col returns ''SPY'' of
        Inl e \<Rightarrow> Inl e
      | Inr spy_returns \<Rightarrow>
     (case betas_of scipy returns spy_returns portfolio of
        Inl e \<Rightarrow> Inl e
      | Inr betas \<Rightarrow> Inr (current_prices, positions, betas))))))"

text \<open>The second half: the weights, the scaling, the normalisation and the table.\<close>

definition rebalance ::
  "portfolio \<Rightarrow> series \<Rightarrow> npfloat list \<Rightarrow> npfloat list \<Rightarrow> real \<Rightarrow> real \<Rightarrow> results" where
  "rebalance portfolio current_prices positions betas total_portfolio_value target_beta =
     (let current_weights = map (\<lambda>p. np_div p (Fin total_portfolio_value)) positions;
          current_beta = np_dot betas current_weights;
          beta_adjustment = np_div (Fin target_beta) current_beta;
          new_weights = map (\<lambda>w. np_mul w beta_adjustment) current_weights;
          new_sum = np_sum new_weights;
          normalized_weights = map (\<lambda>w. np_div w new_sum) new_weights;
          prices = map (\<lambda>(t, _). vals current_prices t) portfolio
      in \<lparr>Ticker = map fst portfolio,
          Current_Shares = map snd portfolio,
          Current_Price = prices,
          Beta = betas,
          Current_Weight = current_weights,
          Adjusted_Weight = normalized_weights,
          New_Shares =
            map2 (\<lambda>w p. np_round (np_div (np_mul w (Fin total_portfolio_value)) p))
              normalized_weights prices\<rparr>)"

definition portfolio_beta_weighting ::
  "scipy_release \<Rightarrow> downloader \<Rightarrow> portfolio \<Rightarrow> real \<Rightarrow> real \<Rightarrow> error + results" where
  "portfolio_beta_weighting scipy yf portfolio total_portfolio_value target_beta =
     (case prices_and_betas scipy yf portfolio of
        Inl e \<Rightarrow> Inl e
      | Inr (current_prices, positions, betas) \<Rightarrow>
          Inr (rebalance portfolio current_prices positions betas
                 total_portfolio_value target_beta))"

text \<open>The current portfolio beta, read back from the columns of the result.\<close>

definition current_beta_of :: "results \<Rightarrow> npfloat" where
  "current_beta_of res = np_dot (Beta res) (Current_Weight res)"

text \<open>
  A positive number of ordinary size, between \<^verbatim>\<open>1e-100\<close> and \<^verbatim>\<open>1e100\<close>. Where the weights
  and the magnitude of the scale factor are such numbers, the scaled weights all have one
  sign and a magnitude between \<^verbatim>\<open>1e-200\<close> and \<^verbatim>\<open>1e200\<close>: nothing cancels in their sum and
  nothing overflows or underflows in \<^verbatim>\<open>float64\<close>, so that only rounding error separates
  the \<^verbatim>\<open>float64\<close> results from the exact ones.
\<close>

definition ordinary :: "real \<Rightarrow> bool" where
  "ordinary x \<longleftrightarrow> 1 / 10 ^ 100 \<le> x \<and> x \<le> 10 ^ 100"

section \<open>Mean and variance of a list of numbers\<close>

text \<open>
  The population mean, covariance and variance of finite sequences of reals: the
  quantities that \<^verbatim>\<open>np.cov(x, y, bias=1)\<close> computes on sequences of numbers, and in which
  the statements about the regression are phrased.
\<close>

definition mean_of :: "real list \<Rightarrow> real" where
  "mean_of rs = sum_list rs / real (length rs)"

definition covariance_of :: "real list \<Rightarrow> real list \<Rightarrow> real" where
  "covariance_of as bs =
     (\<Sum>(a, b)\<leftarrow>zip as bs. (a - mean_of as) * (b - mean_of bs)) * (1 / real (length as))"

definition variance_of :: "real list \<Rightarrow> real" where
  "variance_of rs = covariance_of rs rs"

section \<open>Example data\<close>

text \<open>A price table with one column and one row, and one with two rows.\<close>

definition one_row_table :: frame where
  "one_row_table = \<lparr>columns = [''SPY''], rows = [\<lambda>t. Fin 100]\<rparr>"

definition two_row_table :: frame where
  "two_row_table = \<lparr>columns = [''SPY''], rows = [\<lambda>t. Fin 1, \<lambda>t. Fin 2]\<rparr>"

text \<open>Three market-data sources: both price fields, only \<^verbatim>\<open>Close\<close>, neither.\<close>

definition source_adj :: downloader where
  "source_adj tickers dates = \<lparr>adj_close = Some two_row_table, close = Some one_row_table\<rparr>"

definition source_close :: downloader where
  "source_close tickers dates = \<lparr>adj_close = None, close = Some two_row_table\<rparr>"

definition source_neither :: downloader where
  "source_neither tickers dates = \<lparr>adj_close = None, close = None\<rparr>"

text \<open>
  A market of three days: asset \<^verbatim>\<open>A\<close> moves with the benchmark (prices 1, 1, 2), asset
  \<^verbatim>\<open>B\<close> does not move (prices 1, 1, 1). The source answers every request with this table
  in its \<^verbatim>\<open>Close\<close> field. The daily log returns are \<open>0, ln 2\<close> for \<^verbatim>\<open>A\<close> and \<^verbatim>\<open>SPY\<close> and
  \<open>0, 0\<close> for \<^verbatim>\<open>B\<close>, so the betas are 1 and 0; the current prices are 2 and 1.
\<close>

definition market_table :: frame where
  "market_table = \<lparr>columns = [''A'', ''B'', ''SPY''],
     rows = [\<lambda>t. Fin 1, \<lambda>t. Fin 1, \<lambda>t. if t = ''B'' then Fin 1 else Fin 2]\<rparr>"

definition market :: downloader where
  "market tickers dates = \<lparr>adj_close = None, close = Some market_table\<rparr>"

definition market_prices :: series where
  "market_prices =
     \<lparr>index = [''A'', ''B'', ''SPY''], vals = (\<lambda>t. if t = ''B'' then Fin 1 else Fin 2)\<rparr>"

text \<open>The table for one share of \<^verbatim>\<open>A\<close> and two of \<^verbatim>\<open>B\<close>, a total value of 4 and any
  nonzero target beta.\<close>

definition market_AB_result :: results where
  "market_AB_result = \<lparr>Ticker = [''A'', ''B''], Current_Shares = [1, 2],
     Current_Price = [Fin 2, Fin 1], Beta = [Fin 1, Fin 0],
     Current_Weight = [Fin (1 / 2), Fin (1 / 2)],
     Adjusted_Weight = [Fin (1 / 2), Fin (1 / 2)], New_Shares = [Fin 1, Fin 2]\<rparr>"

section \<open>Properties of the returns\<close>

lemma np_div_NaN_right [simp]: "np_div a NaN = NaN"
  by (cases a) simp_all

lemma raw_return_rows:
  assumes "rows data = r0 # rest"
  shows "rows (frame_log (frame_div data (shift1 data))) =
    (\<lambda>t. NaN) # map2 (\<lambda>q p. (\<lambda>t. np_log (np_div (q t) (p t)))) rest (butlast (r0 # rest))"
  using assms by (auto simp add: frame_log_def frame_div_def shift1_def simp del: butlast.simps)

lemma columns_calculate_returns [simp]: "columns (calculate_returns data) = columns data"
  by (simp add: calculate_returns_def dropna_def frame_log_def frame_div_def)

lemma rows_calculate_returns:
  assumes "rows data = r0 # rest"
  shows "rows (calculate_returns data) =
    filter (\<lambda>r. list_all (\<lambda>t. r t \<noteq> NaN) (columns data))
      ((\<lambda>t. NaN) # map2 (\<lambda>q p. (\<lambda>t. np_log (np_div (q t) (p t)))) rest (butlast (r0 # rest)))"
proof -
  have "columns (frame_log (frame_div data (shift1 data))) = columns data"
    by (simp add: frame_log_def frame_div_def)
  then show ?thesis
    using raw_return_rows [OF assms] by (simp add: calculate_returns_def dropna_def del: butlast.simps)
qed

text \<open>
  C3, as stated, fails: the function has no check on the number of rows and raises
  nothing. On a table of one row the only output row is the all-\<^verbatim>\<open>nan\<close> row of the
  division by the shifted table, which \<^verbatim>\<open>dropna\<close> removes: the result is a return series
  without rows.
\<close>

theorem calculate_returns_one_row_returns_empty:
  "calculate_returns one_row_table = \<lparr>columns = [''SPY''], rows = []\<rparr>"
  by (simp add: calculate_returns_def one_row_table_def dropna_def frame_log_def
      frame_div_def shift1_def)

text \<open>
  C3, amended: for every price table with at least one column and fewer than 2 rows,
  \<^verbatim>\<open>calculate_returns\<close> raises no error and returns the return series with the same
  columns and no rows.
\<close>

theorem calculate_returns_short_table:
  assumes "columns data \<noteq> []" and "length (rows data) < 2"
  shows "calculate_returns data = \<lparr>columns = columns data, rows = []\<rparr>"
proof (cases "rows data")
  case Nil
  then show ?thesis
    by (simp add: calculate_returns_def dropna_def frame_log_def frame_div_def shift1_def)
next
  case (Cons r0 rest)
  with assms(2) have rest: "rest = []" by simp
  obtain c cs where c: "columns data = c # cs"
    using assms(1) by (cases "columns data") auto
  show ?thesis
    using Cons rest c
    by (simp add: calculate_returns_def dropna_def frame_log_def frame_div_def shift1_def)
qed

theorem calculate_returns_short_table_witness:
  "columns one_row_table \<noteq> [] \<and> length (rows one_row_table) < 2 \<and>
   calculate_returns one_row_table = \<lparr>columns = columns one_row_table, rows = []\<rparr>"
proof -
  have h1: "columns one_row_table \<noteq> []" by (simp add: one_row_table_def)
  have h2: "length (rows one_row_table) < 2" by (simp add: one_row_table_def)
  from calculate_returns_short_table [OF h1 h2] h1 h2 show ?thesis by simp
qed

text \<open>
  C6: for every price table with at least one column and \<open>n \<ge> 2\<close> rows whose cells are
  all strictly positive numbers, \<^verbatim>\<open>calculate_returns\<close> keeps the columns, returns exactly
  \<open>n - 1\<close> rows, and the cell of row \<open>t\<close> (counted from 0) and column \<open>c\<close> is the finite
  number \<open>ln (price[t + 1][c] / price[t][c])\<close>: the first row of the quotient is dropped.
\<close>

theorem calculate_returns_log_returns:
  assumes cols: "columns data \<noteq> []"
    and len: "2 \<le> length (rows data)"
    and pos: "\<forall>r \<in> set (rows data). \<forall>c \<in> set (columns data). \<exists>p. 0 < p \<and> r c = Fin p"
  shows "columns (calculate_returns data) = columns data \<and>
    length (rows (calculate_returns data)) = length (rows data) - 1 \<and>
    (\<forall>t c. t < length (rows data) - 1 \<longrightarrow> c \<in> set (columns data) \<longrightarrow>
       (\<exists>p q. 0 < p \<and> 0 < q \<and> (rows data ! t) c = Fin p \<and> (rows data ! Suc t) c = Fin q \<and>
          (rows (calculate_returns data) ! t) c = Fin (ln (q / p))))"
proof -
  obtain r0 rest where rs: "rows data = r0 # rest"
    using len by (cases "rows data") auto
  let ?raw = "map2 (\<lambda>q p. (\<lambda>t. np_log (np_div (q t) (p t)))) rest (butlast (r0 # rest))"
  have lraw: "length ?raw = length rest" by simp
  have cell: "\<exists>p q. 0 < p \<and> 0 < q \<and> (rows data ! t) c = Fin p \<and> (rows data ! Suc t) c = Fin q \<and>
      (?raw ! t) c = Fin (ln (q / p))"
    if t: "t < length rest" and c: "c \<in> set (columns data)" for t c
  proof -
    have "t < length (rows data)" "Suc t < length (rows data)"
      using t rs by simp_all
    then have "rows data ! t \<in> set (rows data)" "rows data ! Suc t \<in> set (rows data)"
      by (simp_all only: nth_mem)
    then obtain p q where p: "0 < p" "(rows data ! t) c = Fin p"
      and q: "0 < q" "(rows data ! Suc t) c = Fin q"
      using pos c by blast
    have "?raw ! t = (\<lambda>u. np_log (np_div ((rest ! t) u) (((r0 # rest) ! t) u)))"
      using t by (simp add: nth_butlast del: butlast.simps)
    then have "(?raw ! t) c = Fin (ln (q / p))"
      using p q rs by simp
    with p q show ?thesis by blast
  qed
  have keep: "list_all (\<lambda>t. r t \<noteq> NaN) (columns data)" if "r \<in> set ?raw" for r
  proof -
    from that obtain t where t: "t < length rest" "r = ?raw ! t"
      unfolding in_set_conv_nth lraw by auto
    show ?thesis unfolding list_all_iff
    proof
      fix c assume "c \<in> set (columns data)"
      from cell [OF t(1) this] show "r c \<noteq> NaN" using t(2) by auto
    qed
  qed
  obtain c0 cs where "columns data = c0 # cs"
    using cols by (cases "columns data") auto
  then have drop: "\<not> list_all (\<lambda>t. (\<lambda>u. NaN) t \<noteq> NaN) (columns data)" by simp
  have out: "rows (calculate_returns data) = ?raw"
    unfolding rows_calculate_returns [OF rs] using drop keep
    by (simp del: butlast.simps add: filter_id_conv)
  show ?thesis
    using out lraw rs cell by simp
qed

theorem calculate_returns_log_returns_witness:
  "columns two_row_table \<noteq> [] \<and> 2 \<le> length (rows two_row_table) \<and>
   length (rows (calculate_returns two_row_table)) = 1 \<and>
   (rows (calculate_returns two_row_table) ! 0) ''SPY'' = Fin (ln 2)"
proof -
  have h1: "columns two_row_table \<noteq> []" by (simp add: two_row_table_def)
  have h2: "2 \<le> length (rows two_row_table)" by (simp add: two_row_table_def)
  have h3: "\<forall>r \<in> set (rows two_row_table). \<forall>c \<in> set (columns two_row_table).
      \<exists>p. 0 < p \<and> r c = Fin p"
    by (simp add: two_row_table_def)
  from calculate_returns_log_returns [OF h1 h2 h3]
  have "length (rows (calculate_returns two_row_table)) = length (rows two_row_table) - 1"
    and "\<exists>p q. 0 < p \<and> 0 < q \<and> (rows two_row_table ! 0) ''SPY'' = Fin p \<and>
          (rows two_row_table ! Suc 0) ''SPY'' = Fin q \<and>
          (rows (calculate_returns two_row_table) ! 0) ''SPY'' = Fin (ln (q / p))"
    by (simp_all add: two_row_table_def)
  then have "length (rows (calculate_returns two_row_table)) = 1"
    and "(rows (calculate_returns two_row_table) ! 0) ''SPY'' = Fin (ln 2)"
    by (auto simp add: two_row_table_def)
  with h1 h2 show ?thesis by blast
qed

section \<open>Properties of the data retrieval\<close>

text \<open>
  C5: both retrievals take the \<^verbatim>\<open>Adj Close\<close> field when the downloaded table has one,
  otherwise the \<^verbatim>\<open>Close\<close> field, and raise the \<^verbatim>\<open>ValueError\<close> that the specification calls
  \<^verbatim>\<open>DataUnavailable\<close> exactly when the table has neither. \<^verbatim>\<open>get_historical_data\<close> returns
  the chosen field without the rows that have a missing cell; the current-price fetch of
  \<^verbatim>\<open>portfolio_beta_weighting\<close> returns the last row of the chosen field (and that step is
  an \<^verbatim>\<open>IndexError\<close>, not \<^verbatim>\<open>DataUnavailable\<close>, when the field has no rows).
\<close>

theorem retrieval_prefers_adjusted_close:
  "(\<forall>f. adj_close (yf (tickers @ [''SPY'']) (Some (start_date, end_date))) = Some f \<longrightarrow>
        get_historical_data yf tickers start_date end_date = Inr (dropna f)) \<and>
   (\<forall>f. adj_close (yf (tickers @ [''SPY'']) (Some (start_date, end_date))) = None \<and>
        close (yf (tickers @ [''SPY'']) (Some (start_date, end_date))) = Some f \<longrightarrow>
        get_historical_data yf tickers start_date end_date = Inr (dropna f)) \<and>
   (get_historical_data yf tickers start_date end_date = Inl DataUnavailable \<longleftrightarrow>
      adj_close (yf (tickers @ [''SPY'']) (Some (start_date, end_date))) = None \<and>
      close (yf (tickers @ [''SPY'']) (Some (start_date, end_date))) = None) \<and>
   (\<forall>f. adj_close (yf (map fst portfolio) None) = Some f \<longrightarrow>
        current_prices_of yf portfolio = iloc_last f) \<and>
   (\<forall>f. adj_close (yf (map fst portfolio) None) = None \<and>
        close (yf (map fst portfolio) None) = Some f \<longrightarrow>
        current_prices_of yf portfolio = iloc_last f) \<and>
   (current_prices_of yf portfolio = Inl DataUnavailable \<longleftrightarrow>
      adj_close (yf (map fst portfolio) None) = None \<and>
      close (yf (map fst portfolio) None) = None)"
  by (simp add: get_historical_data_def current_prices_of_def DataUnavailable_def Let_def
      iloc_last_def split: option.splits)

theorem retrieval_prefers_adjusted_close_witness:
  "get_historical_data source_adj [''A''] ''2020-01-01'' ''2023-01-01'' = Inr (dropna two_row_table) \<and>
   get_historical_data source_close [''A''] ''2020-01-01'' ''2023-01-01'' = Inr (dropna two_row_table) \<and>
   get_historical_data source_neither [''A''] ''2020-01-01'' ''2023-01-01'' = Inl DataUnavailable \<and>
   current_prices_of source_adj [(''A'', 1)] = iloc_last two_row_table \<and>
   current_prices_of source_close [(''A'', 1)] = iloc_last two_row_table \<and>
   current_prices_of source_neither [(''A'', 1)] = Inl DataUnavailable"
  using
    retrieval_prefers_adjusted_close
      [of source_adj "[''A'']" "''2020-01-01''" "''2023-01-01''" "[(''A'', 1)]"]
    retrieval_prefers_adjusted_close
      [of source_close "[''A'']" "''2020-01-01''" "''2023-01-01''" "[(''A'', 1)]"]
    retrieval_prefers_adjusted_close
      [of source_neither "[''A'']" "''2020-01-01''" "''2023-01-01''" "[(''A'', 1)]"]
  by (simp add: source_adj_def source_close_def source_neither_def)

section \<open>Properties of the regression\<close>

subsection \<open>Sums, means and covariances of numbers\<close>

lemma fold_np_add_Fin:
  "fold (\<lambda>x acc. np_add acc x) (map Fin rs) (Fin a) = Fin (a + sum_list rs)"
  by (induction rs arbitrary: a) (simp_all add: add.assoc)

lemma np_sum_Fin: "np_sum (map Fin rs) = Fin (sum_list rs)"
  by (simp add: np_sum_def fold_np_add_Fin)

lemma np_mean_Fin: "rs \<noteq> [] \<Longrightarrow> np_mean (map Fin rs) = Fin (mean_of rs)"
  by (simp add: np_mean_def np_sum_Fin mean_of_def)

lemma map2_np_mul_Fin: "map2 np_mul (map Fin as) (map Fin bs) = map Fin (map2 times as bs)"
  by (induction as arbitrary: bs) (auto simp: zip_Cons1 split: list.splits)

lemma np_dot_Fin: "np_dot (map Fin as) (map Fin bs) = Fin (sum_list (map2 times as bs))"
  unfolding np_dot_def map2_np_mul_Fin by (rule np_sum_Fin)

lemma np_cov_Fin:
  assumes "as \<noteq> []" and "length bs = length as"
  shows "np_cov (map Fin as) (map Fin bs) = Fin (covariance_of as bs)"
proof -
  have bs: "bs \<noteq> []" using assms by auto
  have dx: "map (\<lambda>v. np_sub v (np_mean (map Fin as))) (map Fin as) =
      map Fin (map (\<lambda>a. a - mean_of as) as)"
    using assms by (simp add: np_mean_Fin np_sub_def)
  have dy: "map (\<lambda>v. np_sub v (np_mean (map Fin bs))) (map Fin bs) =
      map Fin (map (\<lambda>a. a - mean_of bs) bs)"
    using bs by (simp add: np_mean_Fin np_sub_def)
  have n: "real (length as) \<noteq> 0" using assms by simp
  have "sum_list (map2 times (map (\<lambda>a. a - mean_of as) as) (map (\<lambda>a. a - mean_of bs) bs))
      = (\<Sum>(a, b)\<leftarrow>zip as bs. (a - mean_of as) * (b - mean_of bs))"
    by (simp add: zip_map1 zip_map2 map_zip_map map_zip_map2 split_def comp_def)
  then show ?thesis
    unfolding np_cov_def Let_def dx dy np_dot_Fin using n
    by (simp add: covariance_of_def)
qed

subsection \<open>The check for identical values\<close>

lemma fold_np_max2_Fin: "fold np_max2 (map Fin rs) (Fin a) = Fin (fold max rs a)"
  by (induction rs arbitrary: a) (auto simp: np_max2_def max_def)

lemma fold_np_min2_Fin: "fold np_min2 (map Fin rs) (Fin a) = Fin (fold min rs a)"
  by (induction rs arbitrary: a) (auto simp: np_min2_def min_def)

lemma fold_np_max2_same: "v \<noteq> NaN \<Longrightarrow> \<forall>b \<in> set xs. b = v \<Longrightarrow> fold np_max2 xs v = v"
  by (induction xs) (auto simp: np_max2_def)

lemma fold_np_min2_same: "v \<noteq> NaN \<Longrightarrow> \<forall>b \<in> set xs. b = v \<Longrightarrow> fold np_min2 xs v = v"
  by (induction xs) (auto simp: np_min2_def)

lemma fold_max_eq_min_all_equal:
  fixes a :: real
  assumes "fold max rs a = fold min rs a"
  shows "\<forall>x \<in> set (a # rs). x = fold max rs a"
proof -
  have M: "fold max rs a = Max (set (a # rs))" by (rule Max.set_eq_fold [symmetric])
  have m: "fold min rs a = Min (set (a # rs))" by (rule Min.set_eq_fold [symmetric])
  show ?thesis
  proof
    fix x assume x: "x \<in> set (a # rs)"
    then have "Min (set (a # rs)) \<le> x" "x \<le> Max (set (a # rs))"
      by (auto simp del: set_simps)
    with assms M m show "x = fold max rs a" by linarith
  qed
qed

lemma all_equal_variance_zero:
  assumes "\<forall>x \<in> set rs. x = v"
  shows "variance_of rs = 0"
proof (cases "rs = []")
  case True
  then show ?thesis by (simp add: variance_of_def covariance_of_def)
next
  case False
  from assms have rs: "rs = replicate (length rs) v"
    by (simp add: replicate_length_same)
  have "sum_list rs = real (length rs) * v"
    by (subst rs) (simp add: sum_list_replicate)
  with False have mu: "mean_of rs = v" by (simp add: mean_of_def)
  have "(\<Sum>(a, b)\<leftarrow>zip rs rs. (a - v) * (b - v)) = 0"
    using assms by (induction rs) auto
  then show ?thesis by (simp add: variance_of_def covariance_of_def mu)
qed

subsection \<open>A series against itself\<close>

lemma linregress_body_self:
  assumes "0 < variance_of rs"
  shows "linregress_body scipy (map Fin rs) (map Fin rs) = Inr (Fin 1, Fin 1)"
proof -
  obtain a rest where rs: "rs = a # rest"
    using assms by (cases rs) (auto simp: variance_of_def covariance_of_def)
  have ne: "fold max rest a \<noteq> fold min rest a"
  proof
    assume "fold max rest a = fold min rest a"
    from fold_max_eq_min_all_equal [OF this] have "\<forall>x \<in> set rs. x = fold max rest a"
      unfolding rs .
    from all_equal_variance_zero [OF this] assms show False by simp
  qed
  have cov: "np_cov (map Fin rs) (map Fin rs) = Fin (variance_of rs)"
    using np_cov_Fin [of rs rs] rs by (simp add: variance_of_def)
  have sq: "sqrt (variance_of rs * variance_of rs) = variance_of rs"
    using assms by simp
  have "linregress_body scipy (map Fin (a # rest)) (map Fin (a # rest)) = Inr (Fin 1, Fin 1)"
    unfolding linregress_body_def
    using ne assms cov [unfolded rs] sq [unfolded rs]
    by (simp add: fold_np_max2_Fin fold_np_min2_Fin np_eq_def Let_def np_gt_def rs)
  then show ?thesis by (simp add: rs)
qed

lemma linregress_wrapper_passes:
  assumes "length x = length y" and "2 \<le> length x" and "NaN \<notin> set x" and "NaN \<notin> set y"
  shows "linregress scipy x y = linregress_body scipy x y"
  using assms by (cases scipy) (simp_all add: linregress_def broadcast_pair_def)

lemma linregress_self:
  assumes "2 \<le> length rs" and "0 < variance_of rs"
  shows "linregress scipy (map Fin rs) (map Fin rs) = Inr (Fin 1, Fin 1)"
proof -
  have "NaN \<notin> set (map Fin rs)" by auto
  with assms(1) have "linregress scipy (map Fin rs) (map Fin rs) =
      linregress_body scipy (map Fin rs) (map Fin rs)"
    by (intro linregress_wrapper_passes) simp_all
  with linregress_body_self [OF assms(2)] show ?thesis by simp
qed

text \<open>
  C7: for every series of at least 2 numbers with strictly positive variance,
  \<^verbatim>\<open>calculate_beta\<close> of the series against itself returns beta 1 and R squared 1, under
  either release of SciPy.
\<close>

theorem calculate_beta_self:
  assumes "2 \<le> length rs" and "0 < variance_of rs"
  shows "calculate_beta scipy (map Fin rs) (map Fin rs) = Inr (Fin 1, Fin 1)"
  using linregress_self [OF assms] by (simp add: calculate_beta_def)

theorem calculate_beta_self_witness:
  "2 \<le> length [0, 1 :: real] \<and> variance_of [0, 1] = 1 / 4 \<and>
   calculate_beta Scipy_1_15 [Fin 0, Fin 1] [Fin 0, Fin 1] = Inr (Fin 1, Fin 1) \<and>
   calculate_beta Scipy_1_17 [Fin 0, Fin 1] [Fin 0, Fin 1] = Inr (Fin 1, Fin 1)"
proof -
  have v: "variance_of [0, 1] = 1 / 4"
    by (simp add: variance_of_def covariance_of_def mean_of_def)
  have "calculate_beta scipy (map Fin [0, 1]) (map Fin [0, 1]) = Inr (Fin 1, Fin 1)" for scipy
    by (rule calculate_beta_self) (simp_all add: v)
  with v show ?thesis by simp
qed

subsection \<open>Degenerate input\<close>

lemma calculate_beta_one_pair:
  "calculate_beta scipy [Fin a] [Fin b] =
     Inr (NaN, case scipy of Scipy_1_15 \<Rightarrow> Fin 0 | Scipy_1_17 \<Rightarrow> NaN)"
  by (cases scipy)
     (simp_all add: calculate_beta_def linregress_def linregress_body_def broadcast_pair_def
        np_cov_def np_dot_def np_sum_def np_mean_def np_sub_def np_eq_def)

text \<open>
  C4, as stated, fails: \<^verbatim>\<open>calculate_beta\<close> has no check of its own, and \<^verbatim>\<open>linregress\<close>
  raises for an \<^verbatim>\<open>x\<close> of identical values only when there is more than one. On one
  paired observation the regression returns under either release: the slope is \<^verbatim>\<open>nan\<close>
  (the releases differ in the correlation coefficient, 0 or \<^verbatim>\<open>nan\<close>).
\<close>

theorem calculate_beta_one_observation_returns:
  "calculate_beta Scipy_1_15 [Fin (1 / 100)] [Fin (1 / 50)] = Inr (NaN, Fin 0) \<and>
   calculate_beta Scipy_1_17 [Fin (1 / 100)] [Fin (1 / 50)] = Inr (NaN, NaN)"
  by (simp add: calculate_beta_one_pair)

text \<open>
  C4, amended: for every pair of same-length sequences with at least 2 paired
  observations and no \<^verbatim>\<open>nan\<close> among the asset returns, if the benchmark values are all
  the same value (not \<^verbatim>\<open>nan\<close>), \<^verbatim>\<open>calculate_beta\<close> fails with the \<^verbatim>\<open>ValueError\<close> of
  \<^verbatim>\<open>linregress\<close> (the specification's \<^verbatim>\<open>DegenerateRegression\<close>); on exactly one pair of
  numbers it raises nothing and returns the slope \<^verbatim>\<open>nan\<close>. Both hold under either
  release of SciPy; nothing is said of empty sequences, where the releases differ.
\<close>

theorem calculate_beta_degenerate_inputs:
  assumes "length asset = length bench"
  shows "(2 \<le> length bench \<and> NaN \<notin> set asset \<and>
        (\<exists>v. v \<noteq> NaN \<and> (\<forall>b \<in> set bench. b = v)) \<longrightarrow>
       (\<exists>e. calculate_beta scipy asset bench = Inl e \<and> DegenerateRegression e)) \<and>
    (\<forall>a b. asset = [Fin a] \<and> bench = [Fin b] \<longrightarrow>
       (\<exists>r. calculate_beta scipy asset bench = Inr (NaN, r)))"
proof (intro conjI impI allI)
  assume h: "2 \<le> length bench \<and> NaN \<notin> set asset \<and>
    (\<exists>v. v \<noteq> NaN \<and> (\<forall>b \<in> set bench. b = v))"
  then obtain v where v: "v \<noteq> NaN" "\<forall>b \<in> set bench. b = v" by blast
  from h obtain x0 xs where b: "bench = x0 # xs" by (cases bench) auto
  with v have x0: "x0 = v" and xs: "\<forall>b \<in> set xs. b = v" by auto
  have ne: "asset \<noteq> []" using assms b by auto
  have len: "1 < length (v # xs)" using h b by (cases xs) auto
  have nonan: "NaN \<notin> set bench" using v by auto
  have "linregress scipy bench asset = linregress_body scipy bench asset"
    using assms h nonan by (intro linregress_wrapper_passes) simp_all
  moreover have "linregress_body scipy bench asset = Inl (ValueError IdenticalX)"
    using len ne v(1) unfolding b x0
    by (simp add: linregress_body_def fold_np_max2_same [OF v(1) xs]
        fold_np_min2_same [OF v(1) xs] np_eq_def)
  ultimately have "calculate_beta scipy asset bench = Inl (ValueError IdenticalX)"
    by (simp add: calculate_beta_def)
  then show "\<exists>e. calculate_beta scipy asset bench = Inl e \<and> DegenerateRegression e"
    by (simp add: DegenerateRegression_def)
next
  fix a b assume "asset = [Fin a] \<and> bench = [Fin b]"
  then show "\<exists>r. calculate_beta scipy asset bench = Inr (NaN, r)"
    by (simp add: calculate_beta_one_pair)
qed

theorem calculate_beta_degenerate_inputs_witness:
  "calculate_beta Scipy_1_15 [Fin 0, Fin 1] [Fin 1, Fin 1] = Inl (ValueError IdenticalX) \<and>
   calculate_beta Scipy_1_17 [Fin 0, Fin 1] [Fin 1, Fin 1] = Inl (ValueError IdenticalX) \<and>
   calculate_beta Scipy_1_15 [Fin 0] [Fin 1] = Inr (NaN, Fin 0) \<and>
   calculate_beta Scipy_1_17 [Fin 0] [Fin 1] = Inr (NaN, NaN)"
proof -
  have h2: "length [Fin 0, Fin 1] = length [Fin 1, Fin 1]" by simp
  have h3: "length [Fin 0] = length [Fin 1]" by simp
  have id: "\<exists>e. calculate_beta scipy [Fin 0, Fin 1] [Fin 1, Fin 1] = Inl e \<and>
      DegenerateRegression e" for scipy
    using calculate_beta_degenerate_inputs [OF h2, of scipy] by simp
  have one: "\<exists>r. calculate_beta scipy [Fin 0] [Fin 1] = Inr (NaN, r)" for scipy
    using calculate_beta_degenerate_inputs [OF h3, of scipy] by simp
  have v: "calculate_beta scipy [Fin 0, Fin 1] [Fin 1, Fin 1] = Inl (ValueError IdenticalX)"
    for scipy
    by (cases scipy)
       (simp_all add: calculate_beta_def linregress_def linregress_body_def broadcast_pair_def
          np_eq_def np_max2_def np_min2_def)
  from id one v show ?thesis by (simp add: calculate_beta_one_pair)
qed

section \<open>Properties of the rebalancing\<close>

subsection \<open>When a result is a number\<close>

lemma np_add_eq_Fin: "np_add a b = Fin s \<Longrightarrow> \<exists>x y. a = Fin x \<and> b = Fin y \<and> s = x + y"
  by (cases a; cases b) simp_all

lemma np_mul_eq_Fin: "np_mul a b = Fin p \<Longrightarrow> \<exists>x y. a = Fin x \<and> b = Fin y \<and> p = x * y"
  by (cases a; cases b) (simp_all split: if_splits)

lemma np_div_Fin_eq_Fin:
  "np_div a (Fin b) = Fin q \<Longrightarrow> \<exists>x. a = Fin x \<and> b \<noteq> 0 \<and> q = x / b"
  by (cases a) (simp_all split: if_splits)

lemma np_div_not_Fin: "\<forall>x. a \<noteq> Fin x \<Longrightarrow> \<forall>x. b \<noteq> Fin x \<Longrightarrow> np_div a b = NaN"
  by (cases a; cases b) simp_all

lemma fold_np_add_eq_Fin:
  "fold (\<lambda>x acc. np_add acc x) xs a = Fin s \<Longrightarrow>
     \<exists>a' rs. a = Fin a' \<and> xs = map Fin rs \<and> s = a' + sum_list rs"
proof (induction xs arbitrary: a)
  case Nil
  then show ?case by simp
next
  case (Cons y ys)
  from Cons.prems have "fold (\<lambda>x acc. np_add acc x) ys (np_add a y) = Fin s" by simp
  from Cons.IH [OF this] obtain b rs
    where b: "np_add a y = Fin b" "ys = map Fin rs" "s = b + sum_list rs"
    by blast
  from np_add_eq_Fin [OF b(1)] obtain a' y' where "a = Fin a'" "y = Fin y'" "b = a' + y'"
    by blast
  with b have "a = Fin a' \<and> y # ys = map Fin (y' # rs) \<and> s = a' + sum_list (y' # rs)"
    by simp
  then show ?case by - (intro exI, assumption)
qed

lemma np_sum_eq_Fin: "np_sum xs = Fin s \<Longrightarrow> \<exists>rs. xs = map Fin rs \<and> s = sum_list rs"
  unfolding np_sum_def by (drule fold_np_add_eq_Fin) auto

lemma map2_np_mul_eq_Fin:
  "length bs = length ws \<Longrightarrow> map2 np_mul bs ws = map Fin ps \<Longrightarrow>
     \<exists>bs' ws'. bs = map Fin bs' \<and> ws = map Fin ws' \<and> ps = map2 times bs' ws'"
proof (induction bs ws arbitrary: ps rule: list_induct2)
  case Nil
  then show ?case by simp
next
  case (Cons b bs w ws)
  from Cons.prems obtain p ps'
    where ps: "ps = p # ps'" "np_mul b w = Fin p" "map2 np_mul bs ws = map Fin ps'"
    by (cases ps) auto
  from Cons.IH [OF ps(3)] obtain bs' ws'
    where r: "bs = map Fin bs'" "ws = map Fin ws'" "ps' = map2 times bs' ws'"
    by blast
  from np_mul_eq_Fin [OF ps(2)] obtain x y where "b = Fin x" "w = Fin y" "p = x * y" by blast
  with r ps have "b # bs = map Fin (x # bs') \<and> w # ws = map Fin (y # ws') \<and>
      ps = map2 times (x # bs') (y # ws')"
    by simp
  then show ?case by - (intro exI, assumption)
qed

lemma np_dot_eq_Fin:
  assumes "length bs = length ws" and "np_dot bs ws = Fin c"
  shows "\<exists>bs' ws'. bs = map Fin bs' \<and> ws = map Fin ws' \<and> c = sum_list (map2 times bs' ws')"
proof -
  from assms(2) obtain ps where "map2 np_mul bs ws = map Fin ps" "c = sum_list ps"
    unfolding np_dot_def by (auto dest: np_sum_eq_Fin)
  with map2_np_mul_eq_Fin [OF assms(1)] show ?thesis by blast
qed

subsection \<open>The two halves of the function\<close>

lemma positions_of_eq:
  "positions_of cp pf = Inr ps \<Longrightarrow> ps = map (\<lambda>(t, sh). np_mul (Fin sh) (vals cp t)) pf"
  by (induction cp pf arbitrary: ps rule: positions_of.induct)
     (auto simp: series_get_def split: sum.splits if_splits)

lemma betas_of_length: "betas_of scipy returns spy pf = Inr bs \<Longrightarrow> length bs = length pf"
  by (induction scipy returns spy pf arbitrary: bs rule: betas_of.induct)
     (auto split: sum.splits prod.splits)

lemma prices_and_betas_Inr:
  assumes "prices_and_betas scipy yf pf = Inr (cp, ps, bs)"
  shows "ps = map (\<lambda>(t, sh). np_mul (Fin sh) (vals cp t)) pf \<and> length bs = length pf"
  using assms
  by (auto simp: prices_and_betas_def Let_def dest: positions_of_eq betas_of_length
      split: sum.splits)

lemma portfolio_beta_weighting_Inr:
  "portfolio_beta_weighting scipy yf pf total_value target = Inr res \<longleftrightarrow>
   (\<exists>cp ps bs. prices_and_betas scipy yf pf = Inr (cp, ps, bs) \<and>
      res = rebalance pf cp ps bs total_value target)"
  by (auto simp: portfolio_beta_weighting_def split: sum.splits)

lemma rebalance_fields [simp]:
  "Ticker (rebalance pf cp ps bs total_value target) = map fst pf"
  "Current_Shares (rebalance pf cp ps bs total_value target) = map snd pf"
  "Current_Price (rebalance pf cp ps bs total_value target) = map (\<lambda>(t, _). vals cp t) pf"
  "Beta (rebalance pf cp ps bs total_value target) = bs"
  "Current_Weight (rebalance pf cp ps bs total_value target) =
     map (\<lambda>p. np_div p (Fin total_value)) ps"
  by (simp_all add: rebalance_def Let_def)

lemma Adjusted_Weight_rebalance:
  "Adjusted_Weight (rebalance pf cp ps bs total_value target) =
     map (\<lambda>w. np_div w (np_sum (map (\<lambda>w. np_mul w (np_div (Fin target)
                 (np_dot bs (map (\<lambda>p. np_div p (Fin total_value)) ps))))
               (map (\<lambda>p. np_div p (Fin total_value)) ps))))
       (map (\<lambda>w. np_mul w (np_div (Fin target)
                 (np_dot bs (map (\<lambda>p. np_div p (Fin total_value)) ps))))
               (map (\<lambda>p. np_div p (Fin total_value)) ps))"
  by (simp add: rebalance_def Let_def)

lemma length_Adjusted_Weight:
  "length (Adjusted_Weight (rebalance pf cp ps bs total_value target)) = length ps"
  by (simp add: Adjusted_Weight_rebalance)

lemma New_Shares_rebalance:
  "New_Shares (rebalance pf cp ps bs total_value target) =
     map2 (\<lambda>w p. np_round (np_div (np_mul w (Fin total_value)) p))
       (Adjusted_Weight (rebalance pf cp ps bs total_value target))
       (Current_Price (rebalance pf cp ps bs total_value target))"
  by (simp add: rebalance_def Let_def)

lemma rebalance_eqI:
  assumes "Adjusted_Weight (rebalance pf cp ps bs total_value target) =
    Adjusted_Weight (rebalance pf cp ps bs total_value target')"
  shows "rebalance pf cp ps bs total_value target = rebalance pf cp ps bs total_value target'"
  by (rule results.equality) (simp_all add: New_Shares_rebalance assms)

subsection \<open>The example market\<close>

lemma variance_of_example: "variance_of [0, ln 2] = (ln 2)\<^sup>2 / 4"
  by (simp add: variance_of_def covariance_of_def mean_of_def power2_eq_square field_simps)

lemma beta_of_A:
  "calculate_beta scipy [Fin 0, Fin (ln 2)] [Fin 0, Fin (ln 2)] = Inr (Fin 1, Fin 1)"
  using linregress_self [of "[0, ln 2]" scipy]
  by (simp add: variance_of_example calculate_beta_def)

lemma cov_SPY_B: "np_cov [Fin 0, Fin (ln 2)] [Fin 0, Fin 0] = Fin 0"
  using np_cov_Fin [of "[0, ln 2]" "[0, 0]"] by (simp add: covariance_of_def mean_of_def)

lemma cov_B_B: "np_cov [Fin 0, Fin 0] [Fin 0, Fin 0] = Fin 0"
  using np_cov_Fin [of "[0, 0]" "[0, 0]"] by (simp add: covariance_of_def mean_of_def)

lemma cov_SPY_SPY: "np_cov [Fin 0, Fin (ln 2)] [Fin 0, Fin (ln 2)] = Fin ((ln 2)\<^sup>2 / 4)"
  using np_cov_Fin [of "[0, ln 2]" "[0, ln 2]"] variance_of_example
  by (simp add: variance_of_def)

lemma beta_of_B:
  "calculate_beta scipy [Fin 0, Fin 0] [Fin 0, Fin (ln 2)] =
     Inr (Fin 0, case scipy of Scipy_1_15 \<Rightarrow> Fin 0 | Scipy_1_17 \<Rightarrow> NaN)"
  by (cases scipy)
     (simp_all add: calculate_beta_def linregress_def linregress_body_def broadcast_pair_def
        cov_SPY_B cov_B_B cov_SPY_SPY np_eq_def np_max2_def np_min2_def)

lemma market_returns_SPY:
  "frame_col (calculate_returns (dropna market_table)) ''SPY'' = Inr [Fin 0, Fin (ln 2)]"
  by (simp add: frame_col_def calculate_returns_def dropna_def frame_log_def frame_div_def
      shift1_def market_table_def)

lemma market_returns_A:
  "frame_col (calculate_returns (dropna market_table)) ''A'' = Inr [Fin 0, Fin (ln 2)]"
  by (simp add: frame_col_def calculate_returns_def dropna_def frame_log_def frame_div_def
      shift1_def market_table_def)

lemma market_returns_B:
  "frame_col (calculate_returns (dropna market_table)) ''B'' = Inr [Fin 0, Fin 0]"
  by (simp add: frame_col_def calculate_returns_def dropna_def frame_log_def frame_div_def
      shift1_def market_table_def)

lemma market_current: "current_prices_of market pf = Inr market_prices"
  by (simp add: current_prices_of_def market_def iloc_last_def market_table_def
      market_prices_def)

lemma market_hist: "get_historical_data market ts s e = Inr (dropna market_table)"
  by (simp add: get_historical_data_def market_def)

lemma market_AB: "prices_and_betas scipy market [(''A'', 1), (''B'', 2)] =
   Inr (market_prices, [Fin 2, Fin 2], [Fin 1, Fin 0])"
  by (simp add: prices_and_betas_def market_current market_hist market_returns_SPY
      market_returns_A market_returns_B beta_of_A beta_of_B series_get_def market_prices_def)

lemma market_B: "prices_and_betas scipy market [(''B'', 1)] = Inr (market_prices, [Fin 1], [Fin 0])"
  by (simp add: prices_and_betas_def market_current market_hist market_returns_SPY
      market_returns_B beta_of_B series_get_def market_prices_def)

lemma rebalance_AB_4: "target \<noteq> 0 \<Longrightarrow>
   rebalance [(''A'', 1), (''B'', 2)] market_prices [Fin 2, Fin 2] [Fin 1, Fin 0] 4 target =
     market_AB_result"
  by (simp add: rebalance_def Let_def np_dot_def np_sum_def round_half_even_def
      market_prices_def market_AB_result_def)

lemma market_AB_4_1:
  "portfolio_beta_weighting scipy market [(''A'', 1), (''B'', 2)] 4 1 = Inr market_AB_result"
  by (simp add: portfolio_beta_weighting_def market_AB rebalance_AB_4)

lemma market_AB_4_0: "portfolio_beta_weighting scipy market [(''A'', 1), (''B'', 2)] 4 0 =
   Inr (market_AB_result\<lparr>Adjusted_Weight := [NaN, NaN], New_Shares := [NaN, NaN]\<rparr>)"
  by (simp add: portfolio_beta_weighting_def market_AB rebalance_def Let_def np_dot_def
      np_sum_def market_prices_def market_AB_result_def)

lemma market_AB_8_1: "portfolio_beta_weighting scipy market [(''A'', 1), (''B'', 2)] 8 1 =
   Inr (market_AB_result\<lparr>Current_Weight := [Fin (1 / 4), Fin (1 / 4)],
          New_Shares := [Fin 2, Fin 4]\<rparr>)"
  by (simp add: portfolio_beta_weighting_def market_AB rebalance_def Let_def np_dot_def
      np_sum_def market_prices_def market_AB_result_def round_half_even_def)

lemma market_B_1_1: "portfolio_beta_weighting scipy market [(''B'', 1)] 1 1 =
  Inr \<lparr>Ticker = [''B''], Current_Shares = [1], Current_Price = [Fin 1], Beta = [Fin 0],
       Current_Weight = [Fin 1], Adjusted_Weight = [NaN], New_Shares = [NaN]\<rparr>"
  by (simp add: portfolio_beta_weighting_def market_B rebalance_def Let_def np_dot_def
      np_sum_def market_prices_def)

lemma market_short: "prices_and_betas scipy market [(''A'', - 1), (''B'', 2)] =
   Inr (market_prices, [Fin (- 2), Fin 2], [Fin 1, Fin 0])"
  by (simp add: prices_and_betas_def market_current market_hist market_returns_SPY
      market_returns_A market_returns_B beta_of_A beta_of_B series_get_def market_prices_def)

lemma market_short_pos:
  "portfolio_beta_weighting scipy market [(''A'', - 1), (''B'', 2)] 4 1 =
   Inr \<lparr>Ticker = [''A'', ''B''], Current_Shares = [- 1, 2],
     Current_Price = [Fin 2, Fin 1], Beta = [Fin 1, Fin 0],
     Current_Weight = [Fin (- 1 / 2), Fin (1 / 2)],
     Adjusted_Weight = [PInf, NInf], New_Shares = [PInf, NInf]\<rparr>"
  by (simp add: portfolio_beta_weighting_def market_short rebalance_def Let_def np_dot_def
      np_sum_def market_prices_def)

lemma market_short_neg:
  "portfolio_beta_weighting scipy market [(''A'', - 1), (''B'', 2)] 4 (- 1) =
   Inr \<lparr>Ticker = [''A'', ''B''], Current_Shares = [- 1, 2],
     Current_Price = [Fin 2, Fin 1], Beta = [Fin 1, Fin 0],
     Current_Weight = [Fin (- 1 / 2), Fin (1 / 2)],
     Adjusted_Weight = [NInf, PInf], New_Shares = [NInf, PInf]\<rparr>"
  by (simp add: portfolio_beta_weighting_def market_short rebalance_def Let_def np_dot_def
      np_sum_def market_prices_def)

lemma current_beta_AB: "current_beta_of market_AB_result = Fin (1 / 2)"
  by (simp add: current_beta_of_def market_AB_result_def np_dot_def np_sum_def)

lemma ordinary_weights_AB:
  "\<forall>w \<in> set (Current_Weight market_AB_result). \<exists>x. w = Fin x \<and> ordinary x"
proof -
  have o: "ordinary (1 / 2)" by (simp add: ordinary_def)
  have cw: "set (Current_Weight market_AB_result) = {Fin (1 / 2)}"
    by (simp add: market_AB_result_def)
  show ?thesis unfolding cw using o by blast
qed

subsection \<open>The scale factor cancels\<close>

lemma sum_list_scale: "sum_list (map (\<lambda>w. w * s) ws) = sum_list ws * (s::real)"
  by (induction ws) (simp_all add: algebra_simps)

lemma sum_list_divide: "sum_list (map (\<lambda>w. w / d) ws) = sum_list ws / (d::real)"
  by (induction ws) (simp_all add: add_divide_distrib)

lemma sum_list_pos_map:
  fixes f :: "'a \<Rightarrow> real"
  shows "xs \<noteq> [] \<Longrightarrow> \<forall>x \<in> set xs. 0 < f x \<Longrightarrow> 0 < sum_list (map f xs)"
proof (induction xs)
  case Nil
  then show ?case by simp
next
  case (Cons a xs)
  have "0 \<le> sum_list (map f xs)"
    using Cons.prems by (intro sum_list_nonneg) (auto intro: less_imp_le)
  moreover have "0 < f a" using Cons.prems by simp
  ultimately show ?case by simp
qed

lemma scaled_normalized:
  assumes cw: "cw = map Fin ws" and s: "s \<noteq> 0" and sum: "sum_list ws \<noteq> 0"
  shows "map (\<lambda>w. np_div w (np_sum (map (\<lambda>w. np_mul w (Fin s)) cw)))
      (map (\<lambda>w. np_mul w (Fin s)) cw)
     = map Fin (map (\<lambda>w. w / sum_list ws) ws)"
proof -
  have nw: "map (\<lambda>w. np_mul w (Fin s)) cw = map Fin (map (\<lambda>w. w * s) ws)"
    by (simp add: cw)
  have "np_sum (map (\<lambda>w. np_mul w (Fin s)) cw) = Fin (sum_list ws * s)"
    unfolding nw np_sum_Fin sum_list_scale ..
  then show ?thesis
    unfolding nw using s sum by simp
qed

lemma normalized_plain:
  assumes cw: "cw = map Fin ws" and sum: "sum_list ws \<noteq> 0"
  shows "map (\<lambda>w. np_div w (np_sum cw)) cw = map Fin (map (\<lambda>w. w / sum_list ws) ws)"
  unfolding cw np_sum_Fin using sum by simp

lemma adjusted_weight_cancel:
  assumes len: "length bs = length ps"
    and cb: "current_beta_of (rebalance pf cp ps bs total_value target) = Fin c"
    and c: "c \<noteq> 0"
    and tb: "target' \<noteq> 0"
    and ws: "Current_Weight (rebalance pf cp ps bs total_value target) = map Fin ws"
    and sum: "sum_list ws \<noteq> 0"
  shows "Adjusted_Weight (rebalance pf cp ps bs total_value target') =
    map Fin (map (\<lambda>w. w / sum_list ws) ws)"
proof -
  have cw: "map (\<lambda>p. np_div p (Fin total_value)) ps = map Fin ws" using ws by simp
  have dot: "np_dot bs (map (\<lambda>p. np_div p (Fin total_value)) ps) = Fin c"
    using cb by (simp add: current_beta_of_def)
  have scale: "np_div (Fin target') (Fin c) = Fin (target' / c)" using c by simp
  have "target' / c \<noteq> 0" using c tb by simp
  from scaled_normalized [OF cw this sum] show ?thesis
    unfolding Adjusted_Weight_rebalance dot scale .
qed

lemma ordinary_pos: "ordinary x \<Longrightarrow> 0 < x"
proof -
  assume "ordinary x"
  then have "1 / 10 ^ 100 \<le> x" by (simp add: ordinary_def)
  moreover have "(0::real) < 1 / 10 ^ 100" by simp
  ultimately show ?thesis by (rule less_le_trans [rotated])
qed

lemma all_Fin_ordinary:
  "\<forall>w \<in> set cw. \<exists>x. w = Fin x \<and> ordinary x \<Longrightarrow>
     \<exists>ws. cw = map Fin ws \<and> (\<forall>x \<in> set ws. ordinary x)"
proof (induction cw)
  case Nil
  then show ?case by simp
next
  case (Cons w cw)
  then obtain ws where ws: "cw = map Fin ws" "\<forall>x \<in> set ws. ordinary x" by auto
  from Cons.prems obtain x where x: "w = Fin x" "ordinary x" by auto
  with ws have "w # cw = map Fin (x # ws) \<and> (\<forall>y \<in> set (x # ws). ordinary y)" by simp
  then show ?case by - (intro exI, assumption)
qed

lemma ordinary_run:
  assumes ret: "portfolio_beta_weighting scipy yf pf total_value target = Inr res"
    and cb: "current_beta_of res = Fin c"
    and sc: "ordinary \<bar>target / c\<bar>"
    and ow: "\<forall>w \<in> set (Current_Weight res). \<exists>x. w = Fin x \<and> ordinary x"
  shows "\<exists>cp ps bs ws. prices_and_betas scipy yf pf = Inr (cp, ps, bs) \<and>
    res = rebalance pf cp ps bs total_value target \<and> length bs = length ps \<and>
    Current_Weight res = map Fin ws \<and> sum_list ws \<noteq> 0 \<and> c \<noteq> 0 \<and> target \<noteq> 0"
proof -
  from ret obtain cp ps bs where pb: "prices_and_betas scipy yf pf = Inr (cp, ps, bs)"
    and res: "res = rebalance pf cp ps bs total_value target"
    unfolding portfolio_beta_weighting_Inr by blast
  from prices_and_betas_Inr [OF pb] have len: "length bs = length ps" by simp
  from ordinary_pos [OF sc] have nz: "c \<noteq> 0" "target \<noteq> 0" by auto
  from all_Fin_ordinary [OF ow] obtain ws
    where ws: "Current_Weight res = map Fin ws" "\<forall>x \<in> set ws. ordinary x" by blast
  have ne: "ws \<noteq> []"
  proof
    assume "ws = []"
    with ws have "Current_Weight res = []" by simp
    then have "current_beta_of res = Fin 0"
      by (simp add: current_beta_of_def np_dot_def np_sum_def)
    with cb nz show False by simp
  qed
  have "0 < sum_list (map (\<lambda>x. x) ws)"
    using ne ws(2) by (intro sum_list_pos_map) (auto dest: ordinary_pos)
  then have "sum_list ws \<noteq> 0" by simp
  with pb res len ws(1) nz show ?thesis by blast
qed

text \<open>
  C1, as stated, fails: the claim has every portfolio with a nonzero current beta, and
  the code accepts share counts of either sign. Short one share of \<^verbatim>\<open>A\<close> and long two of
  \<^verbatim>\<open>B\<close>, with a total of 4, the current weights are \<open>-1/2\<close> and \<open>1/2\<close> and the current
  beta is \<open>-1/2\<close>. The scaled weights sum to 0, and the Adjusted Weight column is
  \<^verbatim>\<open>inf, -inf\<close> for the target beta 1 and \<^verbatim>\<open>-inf, inf\<close> for the target beta \<open>-1\<close>: it
  depends on the target. (All the numbers involved are exact in \<^verbatim>\<open>float64\<close>.)
\<close>

theorem adjusted_weight_depends_on_target_when_short:
  "map_sum id current_beta_of
     (portfolio_beta_weighting Scipy_1_15 market [(''A'', - 1), (''B'', 2)] 4 1) =
     Inr (Fin (- 1 / 2)) \<and>
   map_sum id Adjusted_Weight
     (portfolio_beta_weighting Scipy_1_15 market [(''A'', - 1), (''B'', 2)] 4 1) =
     Inr [PInf, NInf] \<and>
   map_sum id Adjusted_Weight
     (portfolio_beta_weighting Scipy_1_15 market [(''A'', - 1), (''B'', 2)] 4 (- 1)) =
     Inr [NInf, PInf] \<and>
   map_sum id current_beta_of
     (portfolio_beta_weighting Scipy_1_17 market [(''A'', - 1), (''B'', 2)] 4 1) =
     Inr (Fin (- 1 / 2)) \<and>
   map_sum id Adjusted_Weight
     (portfolio_beta_weighting Scipy_1_17 market [(''A'', - 1), (''B'', 2)] 4 1) =
     Inr [PInf, NInf] \<and>
   map_sum id Adjusted_Weight
     (portfolio_beta_weighting Scipy_1_17 market [(''A'', - 1), (''B'', 2)] 4 (- 1)) =
     Inr [NInf, PInf]"
  by (simp add: market_short_pos market_short_neg current_beta_of_def np_dot_def np_sum_def)

text \<open>
  C1, amended: let \<^verbatim>\<open>portfolio_beta_weighting\<close> return a table in which every current
  weight is a positive number of ordinary size, the current portfolio beta is a number
  and the scale factor \<^verbatim>\<open>target_beta / current_beta\<close> is of ordinary magnitude. Then the
  Adjusted Weight column is the Current Weight column divided by its sum, and for every
  other target beta with a scale factor of ordinary magnitude the function returns a
  table with the same Current Weight and the same Adjusted Weight column: the scale
  factor cancels in the normalisation. The equalities are those of exact arithmetic, to
  which the \<^verbatim>\<open>float64\<close> columns agree up to rounding error. Nothing is said of New Shares.
\<close>

theorem adjusted_weight_independent_of_target:
  assumes ret: "portfolio_beta_weighting scipy yf pf total_value target = Inr res"
    and cb: "current_beta_of res = Fin c"
    and sc: "ordinary \<bar>target / c\<bar>"
    and ow: "\<forall>w \<in> set (Current_Weight res). \<exists>x. w = Fin x \<and> ordinary x"
  shows "Adjusted_Weight res =
      map (\<lambda>w. np_div w (np_sum (Current_Weight res))) (Current_Weight res) \<and>
    (\<forall>target'. ordinary \<bar>target' / c\<bar> \<longrightarrow>
       (\<exists>res'. portfolio_beta_weighting scipy yf pf total_value target' = Inr res' \<and>
          Current_Weight res' = Current_Weight res \<and>
          Adjusted_Weight res' = Adjusted_Weight res))"
proof -
  from ordinary_run [OF ret cb sc ow] obtain cp ps bs ws
    where pb: "prices_and_betas scipy yf pf = Inr (cp, ps, bs)"
      and res: "res = rebalance pf cp ps bs total_value target"
      and len: "length bs = length ps"
      and cw: "Current_Weight res = map Fin ws"
      and sum: "sum_list ws \<noteq> 0" and c: "c \<noteq> 0" and tb: "target \<noteq> 0"
    by blast
  have cw': "Current_Weight (rebalance pf cp ps bs total_value target) = map Fin ws"
    using cw res by simp
  have cb': "current_beta_of (rebalance pf cp ps bs total_value target) = Fin c"
    using cb res by simp
  have adj: "Adjusted_Weight (rebalance pf cp ps bs total_value target') =
      map Fin (map (\<lambda>w. w / sum_list ws) ws)"
    if "target' \<noteq> 0" for target'
    by (rule adjusted_weight_cancel [OF len cb' c that cw' sum])
  have first: "Adjusted_Weight res =
      map (\<lambda>w. np_div w (np_sum (Current_Weight res))) (Current_Weight res)"
    unfolding cw unfolding res adj [OF tb] using normalized_plain [OF refl sum] by simp
  have "\<exists>res'. portfolio_beta_weighting scipy yf pf total_value target' = Inr res' \<and>
          Current_Weight res' = Current_Weight res \<and>
          Adjusted_Weight res' = Adjusted_Weight res"
    if "ordinary \<bar>target' / c\<bar>" for target'
  proof -
    from ordinary_pos [OF that] have t': "target' \<noteq> 0" by auto
    have "portfolio_beta_weighting scipy yf pf total_value target' =
        Inr (rebalance pf cp ps bs total_value target')"
      by (simp add: portfolio_beta_weighting_def pb)
    moreover have "Current_Weight (rebalance pf cp ps bs total_value target') =
        Current_Weight res"
      by (simp add: res)
    moreover have "Adjusted_Weight (rebalance pf cp ps bs total_value target') =
        Adjusted_Weight res"
      unfolding res by (simp only: adj [OF t'] adj [OF tb])
    ultimately show ?thesis by blast
  qed
  with first show ?thesis by blast
qed

theorem adjusted_weight_independent_of_target_witness:
  "portfolio_beta_weighting Scipy_1_17 market [(''A'', 1), (''B'', 2)] 4 1 =
     Inr market_AB_result \<and>
   current_beta_of market_AB_result = Fin (1 / 2) \<and>
   Adjusted_Weight market_AB_result =
     map (\<lambda>w. np_div w (np_sum (Current_Weight market_AB_result)))
       (Current_Weight market_AB_result) \<and>
   map_sum id Adjusted_Weight
     (portfolio_beta_weighting Scipy_1_17 market [(''A'', 1), (''B'', 2)] 4 3) =
     Inr (Adjusted_Weight market_AB_result)"
proof -
  have sc: "ordinary \<bar>1 / (1 / 2)\<bar>" by (simp add: ordinary_def)
  have sc': "ordinary \<bar>3 / (1 / 2)\<bar>" by (simp add: ordinary_def)
  note ow = ordinary_weights_AB
  from adjusted_weight_independent_of_target [OF market_AB_4_1 current_beta_AB sc ow] sc'
  have "Adjusted_Weight market_AB_result =
     map (\<lambda>w. np_div w (np_sum (Current_Weight market_AB_result)))
       (Current_Weight market_AB_result)"
    and "\<exists>res'. portfolio_beta_weighting Scipy_1_17 market [(''A'', 1), (''B'', 2)] 4 3 =
        Inr res' \<and> Adjusted_Weight res' = Adjusted_Weight market_AB_result"
    by blast+
  with market_AB_4_1 [of Scipy_1_17] current_beta_AB show ?thesis by auto
qed

text \<open>
  C8, as stated, fails: for the target beta 0 (a market-neutral target) every scaled
  weight is 0, the normalisation divides 0 by 0, and the Adjusted Weight column is
  \<^verbatim>\<open>nan\<close> throughout; its sum is \<^verbatim>\<open>nan\<close>, not 1.
\<close>

theorem adjusted_weights_nan_for_zero_target:
  "map_sum id (np_sum \<circ> Adjusted_Weight)
     (portfolio_beta_weighting Scipy_1_15 market [(''A'', 1), (''B'', 2)] 4 0) = Inr NaN \<and>
   map_sum id (np_sum \<circ> Adjusted_Weight)
     (portfolio_beta_weighting Scipy_1_17 market [(''A'', 1), (''B'', 2)] 4 0) = Inr NaN"
  by (simp add: market_AB_4_0 np_sum_def)

text \<open>
  C8, amended: whenever \<^verbatim>\<open>portfolio_beta_weighting\<close> returns a table in which every
  current weight is a positive number of ordinary size, the current portfolio beta is a
  number and the scale factor \<^verbatim>\<open>target_beta / current_beta\<close> is of ordinary magnitude, the
  Adjusted Weight column sums to 1. The sum is that of exact arithmetic; the hypotheses
  leave the \<^verbatim>\<open>float64\<close> sum no cancellation, overflow or underflow, only rounding error.
\<close>

theorem adjusted_weights_sum_to_one:
  assumes ret: "portfolio_beta_weighting scipy yf pf total_value target = Inr res"
    and cb: "current_beta_of res = Fin c"
    and sc: "ordinary \<bar>target / c\<bar>"
    and ow: "\<forall>w \<in> set (Current_Weight res). \<exists>x. w = Fin x \<and> ordinary x"
  shows "np_sum (Adjusted_Weight res) = Fin 1"
proof -
  from ordinary_run [OF ret cb sc ow] obtain cp ps bs ws
    where res: "res = rebalance pf cp ps bs total_value target"
      and len: "length bs = length ps"
      and cw: "Current_Weight res = map Fin ws"
      and sum: "sum_list ws \<noteq> 0" and c: "c \<noteq> 0" and tb: "target \<noteq> 0"
    by blast
  have cw': "Current_Weight (rebalance pf cp ps bs total_value target) = map Fin ws"
    using cw res by simp
  have cb': "current_beta_of (rebalance pf cp ps bs total_value target) = Fin c"
    using cb res by simp
  have "Adjusted_Weight res = map Fin (map (\<lambda>w. w / sum_list ws) ws)"
    unfolding res by (rule adjusted_weight_cancel [OF len cb' c tb cw' sum])
  then show ?thesis
    using sum by (simp only: np_sum_Fin sum_list_divide) simp
qed

theorem adjusted_weights_sum_to_one_witness:
  "portfolio_beta_weighting Scipy_1_17 market [(''A'', 1), (''B'', 2)] 4 1 =
     Inr market_AB_result \<and>
   current_beta_of market_AB_result = Fin (1 / 2) \<and>
   np_sum (Adjusted_Weight market_AB_result) = Fin 1"
proof -
  have sc: "ordinary \<bar>1 / (1 / 2)\<bar>" by (simp add: ordinary_def)
  note ow = ordinary_weights_AB
  from adjusted_weights_sum_to_one [OF market_AB_4_1 current_beta_AB sc ow]
  show ?thesis using market_AB_4_1 [of Scipy_1_17] current_beta_AB by simp
qed

subsection \<open>A current beta of zero\<close>

lemma normalized_all_nan:
  assumes "\<forall>x. s \<noteq> Fin x"
  shows "list_all (\<lambda>w. w = NaN)
    (map (\<lambda>w. np_div w (np_sum (map (\<lambda>w. np_mul w s) cw))) (map (\<lambda>w. np_mul w s) cw))"
proof -
  let ?nw = "map (\<lambda>w. np_mul w s) cw"
  have nf: "\<forall>x. v \<noteq> Fin x" if "v \<in> set ?nw" for v
  proof (intro allI notI)
    fix x assume x: "v = Fin x"
    from that obtain w where "v = np_mul w s" by auto
    with x have "np_mul w s = Fin x" by simp
    from np_mul_eq_Fin [OF this] assms show False by blast
  qed
  have "np_div v (np_sum ?nw) = NaN" if v: "v \<in> set ?nw" for v
  proof -
    have "\<forall>x. np_sum ?nw \<noteq> Fin x"
    proof (intro allI notI)
      fix x assume "np_sum ?nw = Fin x"
      from np_sum_eq_Fin [OF this] obtain rs where "?nw = map Fin rs" by blast
      with v have "\<exists>r. v = Fin r" by (metis (no_types, lifting) imageE list.set_map)
      with nf [OF v] show False by blast
    qed
    with nf [OF v] show ?thesis by (rule np_div_not_Fin)
  qed
  then show ?thesis by (simp add: list_all_iff)
qed

lemma new_shares_all_nan:
  assumes "list_all (\<lambda>w. w = NaN) aw"
  shows "list_all (\<lambda>n. n = NaN)
    (map2 (\<lambda>w p. np_round (np_div (np_mul w (Fin total_value)) p)) aw prices)"
  unfolding list_all_iff
proof
  fix n
  assume "n \<in> set (map2 (\<lambda>w p. np_round (np_div (np_mul w (Fin total_value)) p)) aw prices)"
  then obtain w p where wp: "(w, p) \<in> set (zip aw prices)"
    and n: "n = np_round (np_div (np_mul w (Fin total_value)) p)" by auto
  from wp have "w \<in> set aw" by (rule set_zip_leftD)
  with assms have "w = NaN" by (simp add: list_all_iff)
  with n show "n = NaN" by simp
qed

text \<open>
  C2, as stated, fails: the function has no check of the current beta, and the division
  \<^verbatim>\<open>target_beta / current_beta\<close> is a NumPy division, which gives \<^verbatim>\<open>inf\<close> with a warning.
  For one share of the asset that did not move (beta 0) the current portfolio beta is 0
  and the function returns its table.
\<close>

theorem zero_current_beta_returns_table:
  "map_sum id current_beta_of (portfolio_beta_weighting Scipy_1_15 market [(''B'', 1)] 1 1) =
     Inr (Fin 0) \<and>
   map_sum id current_beta_of (portfolio_beta_weighting Scipy_1_17 market [(''B'', 1)] 1 1) =
     Inr (Fin 0)"
  by (simp add: market_B_1_1 current_beta_of_def np_dot_def np_sum_def)

text \<open>
  C2, amended: whenever the prices and the betas have been obtained and the current
  portfolio beta is exactly 0, \<^verbatim>\<open>portfolio_beta_weighting\<close> raises no error: it returns its
  table, in which every Adjusted Weight and every New Shares entry is \<^verbatim>\<open>nan\<close>.
\<close>

theorem zero_current_beta_returns_nan:
  assumes pb: "prices_and_betas scipy yf pf = Inr (cp, ps, bs)"
    and cb: "current_beta_of (rebalance pf cp ps bs total_value target) = Fin 0"
  shows "portfolio_beta_weighting scipy yf pf total_value target =
      Inr (rebalance pf cp ps bs total_value target) \<and>
    list_all (\<lambda>w. w = NaN) (Adjusted_Weight (rebalance pf cp ps bs total_value target)) \<and>
    list_all (\<lambda>n. n = NaN) (New_Shares (rebalance pf cp ps bs total_value target))"
proof -
  have dot: "np_dot bs (map (\<lambda>p. np_div p (Fin total_value)) ps) = Fin 0"
    using cb by (simp add: current_beta_of_def)
  have "\<forall>x. np_div (Fin target) (Fin 0) \<noteq> Fin x" by simp
  from normalized_all_nan [OF this]
  have adj: "list_all (\<lambda>w. w = NaN)
      (Adjusted_Weight (rebalance pf cp ps bs total_value target))"
    unfolding Adjusted_Weight_rebalance dot .
  from new_shares_all_nan [OF this]
  have "list_all (\<lambda>n. n = NaN) (New_Shares (rebalance pf cp ps bs total_value target))"
    unfolding New_Shares_rebalance .
  with adj show ?thesis by (simp add: portfolio_beta_weighting_def pb)
qed

theorem zero_current_beta_returns_nan_witness:
  "prices_and_betas Scipy_1_17 market [(''B'', 1)] = Inr (market_prices, [Fin 1], [Fin 0]) \<and>
   current_beta_of (rebalance [(''B'', 1)] market_prices [Fin 1] [Fin 0] 1 1) = Fin 0 \<and>
   portfolio_beta_weighting Scipy_1_17 market [(''B'', 1)] 1 1 =
     Inr (rebalance [(''B'', 1)] market_prices [Fin 1] [Fin 0] 1 1) \<and>
   Adjusted_Weight (rebalance [(''B'', 1)] market_prices [Fin 1] [Fin 0] 1 1) = [NaN] \<and>
   New_Shares (rebalance [(''B'', 1)] market_prices [Fin 1] [Fin 0] 1 1) = [NaN]"
proof -
  have cb: "current_beta_of (rebalance [(''B'', 1)] market_prices [Fin 1] [Fin 0] 1 1) = Fin 0"
    by (simp add: current_beta_of_def np_dot_def np_sum_def)
  have l1: "length (Adjusted_Weight (rebalance [(''B'', 1)] market_prices [Fin 1] [Fin 0] 1 1)) = 1"
    by (simp add: length_Adjusted_Weight)
  have l2: "length (New_Shares (rebalance [(''B'', 1)] market_prices [Fin 1] [Fin 0] 1 1)) = 1"
    by (simp add: New_Shares_rebalance length_Adjusted_Weight)
  from zero_current_beta_returns_nan [OF market_B cb] l1 l2
  show ?thesis using market_B cb
    by (auto simp: length_Suc_conv)
qed

subsection \<open>The current weights\<close>

lemma current_weight_map2:
  "map (\<lambda>p. np_div p (Fin total_value)) (map (\<lambda>(t, sh). np_mul (Fin sh) (vals cp t)) pf) =
   map2 (\<lambda>s p. np_div (np_mul (Fin s) p) (Fin total_value))
     (map snd pf) (map (\<lambda>(t, _). vals cp t) pf)"
  by (induction pf) auto

lemma map2_Fin_weights:
  assumes "total_value \<noteq> 0"
  shows "map2 (\<lambda>s p. np_div (np_mul (Fin s) p) (Fin total_value)) shares (map Fin prices) =
    map Fin (map (\<lambda>x. x / total_value) (map2 times shares prices))"
  using assms by (induction shares arbitrary: prices) (auto simp: zip_Cons1 split: list.splits)

lemma member_le_sum_list_real:
  fixes xs :: "real list"
  shows "\<forall>y \<in> set xs. 0 \<le> y \<Longrightarrow> x \<in> set xs \<Longrightarrow> x \<le> sum_list xs"
  by (induction xs) (auto simp: sum_list_nonneg add_increasing add_increasing2)

text \<open>
  C9, as stated, fails: the weights are taken against the total the caller supplies,
  not against the sum of the positions. One share at 2 and two shares at 1 are positions
  of 4 in sum; with a supplied total of 8 the Current Weight column sums to 1/2.
\<close>

theorem current_weights_sum_to_half:
  "map_sum id (np_sum \<circ> Current_Weight)
     (portfolio_beta_weighting Scipy_1_15 market [(''A'', 1), (''B'', 2)] 8 1) =
     Inr (Fin (1 / 2)) \<and>
   map_sum id (np_sum \<circ> Current_Weight)
     (portfolio_beta_weighting Scipy_1_17 market [(''A'', 1), (''B'', 2)] 8 1) =
     Inr (Fin (1 / 2))"
  by (simp add: market_AB_8_1 np_sum_def)

text \<open>
  C9, amended: in every table that \<^verbatim>\<open>portfolio_beta_weighting\<close> returns, each Current
  Weight entry is (shares times current price) divided by the supplied total; when the
  prices are numbers, the prices and the share counts are not negative and the supplied
  total is positive and equal to the sum of the positions, every entry lies between 0
  and 1 and the column sums to 1.
\<close>

theorem current_weight_column:
  assumes ret: "portfolio_beta_weighting scipy yf pf total_value target = Inr res"
  shows "Current_Weight res =
      map2 (\<lambda>s p. np_div (np_mul (Fin s) p) (Fin total_value))
        (Current_Shares res) (Current_Price res) \<and>
    (\<forall>prices. Current_Price res = map Fin prices \<and> (\<forall>p \<in> set prices. 0 \<le> p) \<and>
        (\<forall>s \<in> set (Current_Shares res). 0 \<le> s) \<and> 0 < total_value \<and>
        total_value = sum_list (map2 times (Current_Shares res) prices) \<longrightarrow>
      np_sum (Current_Weight res) = Fin 1 \<and>
      (\<forall>w \<in> set (Current_Weight res). \<exists>x. w = Fin x \<and> 0 \<le> x \<and> x \<le> 1))"
proof -
  from ret obtain cp ps bs where pb: "prices_and_betas scipy yf pf = Inr (cp, ps, bs)"
    and res: "res = rebalance pf cp ps bs total_value target"
    unfolding portfolio_beta_weighting_Inr by blast
  from prices_and_betas_Inr [OF pb]
  have ps: "ps = map (\<lambda>(t, sh). np_mul (Fin sh) (vals cp t)) pf" by simp
  have first: "Current_Weight res =
      map2 (\<lambda>s p. np_div (np_mul (Fin s) p) (Fin total_value))
        (Current_Shares res) (Current_Price res)"
    unfolding res rebalance_fields ps by (rule current_weight_map2)
  have second: "np_sum (Current_Weight res) = Fin 1 \<and>
      (\<forall>w \<in> set (Current_Weight res). \<exists>x. w = Fin x \<and> 0 \<le> x \<and> x \<le> 1)"
    if h: "Current_Price res = map Fin prices \<and> (\<forall>p \<in> set prices. 0 \<le> p) \<and>
        (\<forall>s \<in> set (Current_Shares res). 0 \<le> s) \<and> 0 < total_value \<and>
        total_value = sum_list (map2 times (Current_Shares res) prices)" for prices
  proof -
    let ?pos = "map2 times (Current_Shares res) prices"
    have tv: "total_value \<noteq> 0" "0 < total_value" "total_value = sum_list ?pos"
      using h by auto
    have cw: "Current_Weight res = map Fin (map (\<lambda>x. x / total_value) ?pos)"
      using first h map2_Fin_weights [OF tv(1)] by simp
    have nonneg: "\<forall>y \<in> set ?pos. 0 \<le> y"
    proof
      fix y assume "y \<in> set ?pos"
      then obtain a b where ab: "(a, b) \<in> set (zip (Current_Shares res) prices)"
        and y: "y = a * b"
        by auto
      from ab have "a \<in> set (Current_Shares res)" "b \<in> set prices"
        by (auto dest: set_zip_leftD set_zip_rightD)
      with h have "0 \<le> a" "0 \<le> b" by auto
      with y show "0 \<le> y" by simp
    qed
    have "sum_list (map (\<lambda>x. x / total_value) ?pos) = 1"
      unfolding sum_list_divide using tv by simp
    then have s1: "np_sum (Current_Weight res) = Fin 1"
      unfolding cw np_sum_Fin by simp
    have "\<exists>x. w = Fin x \<and> 0 \<le> x \<and> x \<le> 1" if "w \<in> set (Current_Weight res)" for w
    proof -
      from that obtain y where y: "y \<in> set ?pos" "w = Fin (y / total_value)"
        unfolding cw by auto
      have "0 \<le> y" using nonneg y by blast
      moreover have "y \<le> total_value"
        using member_le_sum_list_real [OF nonneg y(1)] tv by simp
      ultimately show ?thesis using y tv by simp
    qed
    with s1 show ?thesis by blast
  qed
  from first second show ?thesis by blast
qed

theorem current_weight_column_witness:
  "portfolio_beta_weighting Scipy_1_17 market [(''A'', 1), (''B'', 2)] 4 1 =
     Inr market_AB_result \<and>
   Current_Weight market_AB_result =
      map2 (\<lambda>s p. np_div (np_mul (Fin s) p) (Fin 4)) (Current_Shares market_AB_result)
        (Current_Price market_AB_result) \<and>
   np_sum (Current_Weight market_AB_result) = Fin 1"
proof -
  have h: "Current_Price market_AB_result = map Fin [2, 1] \<and>
        (\<forall>p \<in> set [2, 1 :: real]. 0 \<le> p) \<and>
        (\<forall>s \<in> set (Current_Shares market_AB_result). 0 \<le> s) \<and> 0 < (4 :: real) \<and>
        4 = sum_list (map2 times (Current_Shares market_AB_result) [2, 1])"
    by (simp add: market_AB_result_def)
  from current_weight_column [OF market_AB_4_1] h
  have "Current_Weight market_AB_result =
      map2 (\<lambda>s p. np_div (np_mul (Fin s) p) (Fin 4)) (Current_Shares market_AB_result)
        (Current_Price market_AB_result)"
    and "np_sum (Current_Weight market_AB_result) = Fin 1"
    by blast+
  with market_AB_4_1 show ?thesis by simp
qed

subsection \<open>The new share counts\<close>







end
